theory Spec2Isabelle
  imports Complex_Main
begin

section \<open>JavaScript values and errors\<close>

text \<open>
  The pipeline handles values that come out of \<open>JSON.parse\<close>: the request body, the
  classifier's response and the backend's response. A parsed value is a \<open>json\<close>; a
  JavaScript value that may also be \<open>undefined\<close> is a \<open>json option\<close>, with \<open>None\<close>
  for \<open>undefined\<close>. An object is its list of own properties (the first binding of a
  key is the property's value).
\<close>

datatype json =
    JNull
  | JBool bool
  | JNum rat
  | JStr string
  | JArr "json list"
  | JObj "(string \<times> json) list"

text \<open>
  Everything the code throws is an instance of \<open>Error\<close>; the subclass is kept for
  readability. \<open>message_of\<close> is \<open>error.message\<close>.
\<close>

datatype error =
    Error string
  | TypeError string
  | SyntaxError string

fun message_of :: "error \<Rightarrow> string" where
  "message_of (Error m) = m"
| "message_of (TypeError m) = m"
| "message_of (SyntaxError m) = m"

definition bindE :: "error + 'a \<Rightarrow> ('a \<Rightarrow> error + 'b) \<Rightarrow> error + 'b" where
  "bindE m f = (case m of Inl e \<Rightarrow> Inl e | Inr x \<Rightarrow> f x)"

text \<open>Truthiness (\<open>!x\<close>, \<open>x || y\<close>, \<open>if (x)\<close>).\<close>

fun js_truthy :: "json option \<Rightarrow> bool" where
  "js_truthy None = False"
| "js_truthy (Some JNull) = False"
| "js_truthy (Some (JBool b)) = b"
| "js_truthy (Some (JNum n)) = (n \<noteq> 0)"
| "js_truthy (Some (JStr s)) = (s \<noteq> [])"
| "js_truthy (Some (JArr xs)) = True"
| "js_truthy (Some (JObj kvs)) = True"

definition js_or :: "json option \<Rightarrow> json option \<Rightarrow> json option" where
  "js_or a b = (if js_truthy a then a else b)"

text \<open>
  Reading a named property. None of the names the code reads (\<open>sanitizationResult\<close>,
  \<open>matchState\<close>, \<open>message\<close>, ...) is a property of a string, number, boolean or array,
  so on those the read gives \<open>undefined\<close>. \<open>x.k\<close> throws on \<open>undefined\<close> and \<open>null\<close>
  (with the message of the runtime, which names the value and quotes the property);
  \<open>x?.k\<close> gives \<open>undefined\<close> there.
\<close>

fun js_prop :: "json \<Rightarrow> string \<Rightarrow> json option" where
  "js_prop (JObj kvs) k = map_of kvs k"
| "js_prop v k = None"

definition cannot_read :: "string \<Rightarrow> string \<Rightarrow> error" where
  "cannot_read base k =
     TypeError (''Cannot read properties of '' @ base @ '' (reading '' @ [CHR 0x27] @ k @
                [CHR 0x27] @ '')'')"

definition cannot_destructure :: "string \<Rightarrow> error" where
  "cannot_destructure k =
     TypeError (''Cannot destructure property '' @ [CHR 0x27] @ k @ [CHR 0x27] @
                '' of '' @ [CHR 0x27] @ ''(intermediate value)'' @ [CHR 0x27] @
                '' as it is null.'')"

fun js_get :: "json option \<Rightarrow> string \<Rightarrow> error + json option" where
  "js_get None k = Inl (cannot_read ''undefined'' k)"
| "js_get (Some JNull) k = Inl (cannot_read ''null'' k)"
| "js_get (Some v) k = Inr (js_prop v k)"

fun js_opt :: "json option \<Rightarrow> string \<Rightarrow> json option" where
  "js_opt None k = None"
| "js_opt (Some JNull) k = None"
| "js_opt (Some v) k = js_prop v k"

text \<open>Decimal rendering of a status code inside a template string.\<close>

definition digit :: "nat \<Rightarrow> char" where
  "digit n = ''0123456789'' ! n"

function show_nat :: "nat \<Rightarrow> string" where
  "show_nat n = (if n < 10 then [digit n] else show_nat (n div 10) @ [digit (n mod 10)])"
  by pat_completeness auto
termination
  by (relation "measure id") auto

declare show_nat.simps [simp del]

section \<open>Effects: the clock, the network and the trace\<close>

text \<open>
  The handlers are asynchronous functions that suspend at network calls. A \<open>world\<close> fixes
  what the environment answers; a \<open>state\<close> carries the one mutable slot of the process
  (the credential cache), the clock read by \<open>Date.now()\<close> and the trace of the network
  calls made so far. Each network call advances the clock by the time the world says it
  takes.
\<close>

record GoogleCloudAuth =
  accessToken :: string
  expiresAt :: int

datatype direction = UserPrompt | ModelResponse

datatype target = AgentEngine | LocalBackend

datatype event =
    TokenExchange
  | ClassifierCall direction json json string
  | BackendAuth
  | BackendCall target json

text \<open>
  One line of a server-sent-event chunk, as \<open>collectStreamingResponse\<close> tells them
  apart: a line that does not start with \<open>data: \<close>; a data line whose payload
  \<open>JSON.parse\<close> rejects; a parsed payload without a truthy \<open>content.parts[0]\<close>
  (JSON \<open>null\<close> included: the read of \<open>content\<close> throws inside the inner \<open>try\<close>); and
  a parsed payload with one, of which the code reads the truthiness of \<open>incremental\<close>
  and \<open>content.parts[0].text\<close>. The text is a string when present (\<open>None\<close> when the part
  has no \<open>text\<close>, as a function-call part).
\<close>

datatype sse_line =
    NotData
  | BadJson
  | NoPart
  | Part bool "string option"

text \<open>
  A response body stream: the chunks \<open>reader.read()\<close> delivers, and how the stream ends
  (closed, or a read that rejects).
\<close>

record body_stream =
  chunks :: "sse_line list list"
  failure :: "error option"

text \<open>
  A \<open>fetch\<close> response, with the views of its body the code takes: \<open>response.text()\<close>,
  \<open>response.json()\<close> (\<open>None\<close> when the body is not JSON) and \<open>response.body\<close> (\<open>None\<close>
  when there is no body).
\<close>

record http_response =
  status :: nat
  statusText :: string
  bodyText :: string
  bodyJson :: "json option"
  bodyStream :: "body_stream option"

definition ok :: "http_response \<Rightarrow> bool" where
  "ok r = (200 \<le> status r \<and> status r \<le> 299)"

datatype fetch_result = Rejected error | Responded http_response

text \<open>
  \<open>identity\<close> is the answer of the identity provider to a token exchange started at the
  given time: it throws, or it answers with a token that may be absent.
  \<open>classifier\<close> is the answer to the POST to
  \<open>.../templates/{template}:sanitizeUserPrompt\<close> (or \<open>:sanitizeModelResponse\<close>) with the
  given text and bearer token. \<open>shouldUseAgentEngine\<close>, \<open>getAuthHeaders\<close> and the payload
  formatters live in modules of the repository that are not part of the sources at hand;
  they are parameters here, as are the backends' answers and \<open>JSON.stringify\<close>.
\<close>

record world =
  env :: "string \<Rightarrow> string option"
  identity :: "int \<Rightarrow> error + string option"
  classifier :: "direction \<Rightarrow> json \<Rightarrow> json \<Rightarrow> string \<Rightarrow> fetch_result"
  shouldUseAgentEngine :: bool
  getAuthHeaders :: "error option"
  backend :: "target \<Rightarrow> json \<Rightarrow> json option \<Rightarrow> json option \<Rightarrow> fetch_result"
  stringify :: "json \<Rightarrow> string"
  elapsed :: "event \<Rightarrow> nat"

record state =
  cachedAuth :: "GoogleCloudAuth option"
  clock :: int
  trace :: "event list"

definition await :: "world \<Rightarrow> event \<Rightarrow> state \<Rightarrow> state" where
  "await w e s = s\<lparr>clock := clock s + int (elapsed w e), trace := trace s @ [e]\<rparr>"

section \<open>The credential cache (\<open>AuthManager\<close>)\<close>

definition auth_failed :: error where
  "auth_failed = Error ''Failed to authenticate with Google Cloud''"

text \<open>
  The part of \<open>getAccessToken\<close> after the cache check: the token exchange inside its
  \<open>try\<close>. A missing or empty token throws inside the \<open>try\<close>, and every throw is
  replaced by the one authentication error. \<open>expiresAt\<close> is read from the clock after
  the exchange has completed.
\<close>

definition fetchToken :: "world \<Rightarrow> state \<Rightarrow> (error + string) \<times> state" where
  "fetchToken w s =
     (let s1 = await w TokenExchange s in
      case identity w (clock s) of
        Inl e \<Rightarrow> (Inl auth_failed, s1)
      | Inr None \<Rightarrow> (Inl auth_failed, s1)
      | Inr (Some token) \<Rightarrow>
          if token = [] then (Inl auth_failed, s1)
          else (Inr token,
                s1\<lparr>cachedAuth := Some \<lparr>accessToken = token, expiresAt = clock s1 + 3600000\<rparr>\<rparr>))"

definition getAccessToken :: "world \<Rightarrow> state \<Rightarrow> (error + string) \<times> state" where
  "getAccessToken w s =
     (case cachedAuth s of
        Some a \<Rightarrow>
          if clock s < expiresAt a - 300000 then (Inr (accessToken a), s)
          else fetchToken w s
      | None \<Rightarrow> fetchToken w s)"

section \<open>The safety classifier client (\<open>ModelArmorClient\<close>)\<close>

text \<open>
  The client is constructed when a route module is loaded, and the constructor throws
  unless \<open>GOOGLE_CLOUD_PROJECT_ID\<close> is set. The handlers below exist once it has
  succeeded; the project, the location and the endpoint it fixes are part of what
  \<open>classifier\<close> stands for.
\<close>

record ResponsibleAI =
  overall :: string
  sexuallyExplicit :: string
  hateSpeech :: string
  harassment :: string
  dangerous :: string

record SafetyDetails =
  sensitiveData :: "string option"
  promptInjection :: "string option"
  maliciousUrls :: "string option"
  responsibleAI :: "ResponsibleAI option"

record SafetyResult =
  isSafe :: bool
  blocked :: bool
  matchState :: "json option"
  sanitizedText :: "json option"
  details :: SafetyDetails
  rawResponse :: json

definition no_details :: SafetyDetails where
  "no_details = \<lparr>sensitiveData = None, promptInjection = None, maliciousUrls = None,
                  responsibleAI = None\<rparr>"

text \<open>The \<open>switch\<close> compares with \<open>===\<close>: only the numbers 1 and 2 match a case.\<close>

definition getMatchStateMessage :: "json option \<Rightarrow> string" where
  "getMatchStateMessage m =
     (if m = Some (JNum 1) then ''safe''
      else if m = Some (JNum 2) then ''blocked''
      else ''not_assessed'')"

text \<open>
  \<open>parseDetails\<close>, one block of the source after the other. Each block either leaves
  the details as they are, sets its field, or throws on a property read of \<open>undefined\<close>.
\<close>

definition sdp_block :: "json \<Rightarrow> SafetyDetails \<Rightarrow> error + SafetyDetails" where
  "sdp_block filterResults d =
     (if js_truthy (js_prop filterResults ''sdp'') then
        bindE (js_get (js_prop filterResults ''sdp'') ''sdpFilterResult'') (\<lambda>sdpResult.
        bindE (js_get sdpResult ''inspectResult'') (\<lambda>inspectResult.
          if js_truthy inspectResult then
            bindE (js_get inspectResult ''matchState'') (\<lambda>m.
              Inr (d\<lparr>sensitiveData := Some (getMatchStateMessage m)\<rparr>))
          else
            bindE (js_get sdpResult ''deidentifyResult'') (\<lambda>deidentifyResult.
              if js_truthy deidentifyResult then
                bindE (js_get deidentifyResult ''matchState'') (\<lambda>m.
                  Inr (d\<lparr>sensitiveData := Some (getMatchStateMessage m)\<rparr>))
              else Inr d)))
      else Inr d)"

definition pi_block :: "json \<Rightarrow> SafetyDetails \<Rightarrow> error + SafetyDetails" where
  "pi_block filterResults d =
     (if js_truthy (js_prop filterResults ''piAndJailbreak'') then
        bindE (js_get (js_prop filterResults ''piAndJailbreak'') ''piAndJailbreakFilterResult'') (\<lambda>r.
        bindE (js_get r ''matchState'') (\<lambda>m.
          Inr (d\<lparr>promptInjection := Some (getMatchStateMessage m)\<rparr>)))
      else Inr d)"

definition uri_block :: "json \<Rightarrow> SafetyDetails \<Rightarrow> error + SafetyDetails" where
  "uri_block filterResults d =
     (if js_truthy (js_prop filterResults ''maliciousUris'') then
        bindE (js_get (js_prop filterResults ''maliciousUris'') ''maliciousUriFilterResult'') (\<lambda>r.
        bindE (js_get r ''matchState'') (\<lambda>m.
          Inr (d\<lparr>maliciousUrls := Some (getMatchStateMessage m)\<rparr>)))
      else Inr d)"

definition rai_type :: "json option \<Rightarrow> string \<Rightarrow> string" where
  "rai_type raiTypes k =
     getMatchStateMessage (js_or (js_opt (js_opt raiTypes k) ''matchState'') (Some (JNum 0)))"

definition rai_block :: "json \<Rightarrow> SafetyDetails \<Rightarrow> error + SafetyDetails" where
  "rai_block filterResults d =
     (if js_truthy (js_prop filterResults ''rai'') then
        bindE (js_get (js_prop filterResults ''rai'') ''raiFilterResult'') (\<lambda>raiResult.
        bindE (js_get raiResult ''raiFilterTypeResults'') (\<lambda>t.
        bindE (js_get raiResult ''matchState'') (\<lambda>m.
          let raiTypes = js_or t (Some (JObj [])) in
          Inr (d\<lparr>responsibleAI := Some
            \<lparr>overall = getMatchStateMessage m,
             sexuallyExplicit = rai_type raiTypes ''sexuallyExplicit'',
             hateSpeech = rai_type raiTypes ''hateSpeech'',
             harassment = rai_type raiTypes ''harassment'',
             dangerous = rai_type raiTypes ''dangerous''\<rparr>\<rparr>))))
      else Inr d)"

definition parseDetails :: "json \<Rightarrow> error + SafetyDetails" where
  "parseDetails filterResults =
     bindE (sdp_block filterResults no_details) (\<lambda>d1.
     bindE (pi_block filterResults d1) (\<lambda>d2.
     bindE (uri_block filterResults d2) (\<lambda>d3.
     rai_block filterResults d3)))"

text \<open>
  The value of \<open>sanitizationResult.filterResults || {}\<close> is truthy, so it is a \<open>json\<close>.
\<close>

definition filterResults_of :: "json option \<Rightarrow> json" where
  "filterResults_of fr = (case js_or fr (Some (JObj [])) of Some v \<Rightarrow> v | None \<Rightarrow> JObj [])"

definition deidentified :: "json \<Rightarrow> json option" where
  "deidentified filterResults =
     js_opt (js_opt (js_opt (js_opt (js_prop filterResults ''sdp'') ''sdpFilterResult'')
       ''deidentifyResult'') ''data'') ''text''"

definition parseResponse :: "json \<Rightarrow> json \<Rightarrow> error + SafetyResult" where
  "parseResponse apiResponse originalText =
     bindE (js_get (Some apiResponse) ''sanitizationResult'') (\<lambda>sanitizationResult.
     bindE (js_get sanitizationResult ''filterMatchState'') (\<lambda>filterMatchState.
     bindE (js_get sanitizationResult ''filterResults'') (\<lambda>fr.
       let isBlocked = (filterMatchState = Some (JNum 2));
           filterResults = filterResults_of fr;
           sanitizedText =
             (if js_truthy (deidentified filterResults) then deidentified filterResults
              else Some originalText)
       in bindE (parseDetails filterResults) (\<lambda>details.
            Inr \<lparr>isSafe = \<not> isBlocked, blocked = isBlocked, matchState = filterMatchState,
                 sanitizedText = (if isBlocked then Some originalText else sanitizedText),
                 details = details, rawResponse = apiResponse\<rparr>))))"

text \<open>The verdict of the \<open>catch\<close> block: fail open.\<close>

definition fail_open :: "json \<Rightarrow> error \<Rightarrow> SafetyResult" where
  "fail_open text e =
     \<lparr>isSafe = True, blocked = False, matchState = Some (JNum 0), sanitizedText = Some text,
      details = no_details, rawResponse = JObj [(''error'', JStr (message_of e))]\<rparr>"

text \<open>
  The \<open>try\<close> block shared by \<open>sanitizePrompt\<close> and \<open>sanitizeResponse\<close>, which differ in
  the remote operation and in the default template only.
\<close>

definition api_failed :: "http_response \<Rightarrow> error" where
  "api_failed r = Error (''Model Armor API failed: '' @ show_nat (status r) @ '' '' @ bodyText r)"

definition not_json :: error where
  "not_json = SyntaxError ''Unexpected token in JSON''"

definition sanitize_try ::
  "direction \<Rightarrow> world \<Rightarrow> state \<Rightarrow> json \<Rightarrow> json \<Rightarrow> (error + SafetyResult) \<times> state" where
  "sanitize_try dir w s text template =
     (case getAccessToken w s of
        (Inl e, s1) \<Rightarrow> (Inl e, s1)
      | (Inr token, s1) \<Rightarrow>
          (let s2 = await w (ClassifierCall dir template text token) s1 in
           case classifier w dir template text token of
             Rejected e \<Rightarrow> (Inl e, s2)
           | Responded r \<Rightarrow>
               if \<not> ok r then (Inl (api_failed r), s2)
               else (case bodyJson r of
                       None \<Rightarrow> (Inl not_json, s2)
                     | Some data \<Rightarrow> (parseResponse data text, s2))))"

definition sanitize ::
  "direction \<Rightarrow> world \<Rightarrow> state \<Rightarrow> json \<Rightarrow> json \<Rightarrow> SafetyResult \<times> state" where
  "sanitize dir w s text template =
     (case sanitize_try dir w s text template of
        (Inr result, s') \<Rightarrow> (result, s')
      | (Inl e, s') \<Rightarrow> (fail_open text e, s'))"

definition env_value :: "world \<Rightarrow> string \<Rightarrow> json option" where
  "env_value w k = map_option JStr (env w k)"

definition template_of :: "json option \<Rightarrow> json option \<Rightarrow> string \<Rightarrow> json" where
  "template_of templateId configured fallback =
     (case js_or (js_or templateId configured) (Some (JStr fallback)) of
        Some t \<Rightarrow> t | None \<Rightarrow> JStr fallback)"

definition prompt_template :: "world \<Rightarrow> json option \<Rightarrow> json" where
  "prompt_template w templateId =
     template_of templateId (env_value w ''MODEL_ARMOR_PROMPT_TEMPLATE'') ''ma-all-med''"

definition response_template :: "world \<Rightarrow> json option \<Rightarrow> json" where
  "response_template w templateId =
     template_of templateId (env_value w ''MODEL_ARMOR_RESPONSE_TEMPLATE'') ''ma-all-low''"

definition sanitizePrompt :: "world \<Rightarrow> state \<Rightarrow> json \<Rightarrow> json option \<Rightarrow> SafetyResult \<times> state" where
  "sanitizePrompt w s text templateId =
     sanitize UserPrompt w s text (prompt_template w templateId)"

definition sanitizeResponse :: "world \<Rightarrow> state \<Rightarrow> json \<Rightarrow> json option \<Rightarrow> SafetyResult \<times> state" where
  "sanitizeResponse w s text templateId =
     sanitize ModelResponse w s text (response_template w templateId)"

section \<open>Configuration (\<open>model-armor/config.ts\<close>)\<close>

definition SAFETY_TEMPLATES :: "(string \<times> string \<times> string) list" where
  "SAFETY_TEMPLATES =
     [(''conservative'', ''ma-all-high'', ''ma-rai-high''),
      (''balanced'', ''ma-all-med'', ''ma-all-low''),
      (''permissive'', ''ma-pijb-med'', ''ma-rai-low''),
      (''pii_focused'', ''ma-sdp-inspect'', ''ma-sdp-deid''),
      (''content_moderation'', ''ma-rai-high'', ''ma-rai-med'')]"

text \<open>
  \<open>SAFETY_TEMPLATES[profile]\<close> is a property read on an object literal: a registered
  name gives its pair of template identifiers, a name that \<open>Object.prototype\<close> defines
  gives an inherited member (which has neither a \<open>prompt\<close> nor a \<open>response\<close>), and any
  other name gives \<open>undefined\<close>.
\<close>

datatype templates = Registered string string | Inherited | Missing

definition object_prototype :: "string list" where
  "object_prototype =
     [''constructor'', ''__defineGetter__'', ''__defineSetter__'', ''hasOwnProperty'',
      ''__lookupGetter__'', ''__lookupSetter__'', ''isPrototypeOf'', ''propertyIsEnumerable'',
      ''toString'', ''valueOf'', ''__proto__'', ''toLocaleString'']"

definition getTemplates :: "string \<Rightarrow> templates" where
  "getTemplates profile =
     (case map_of SAFETY_TEMPLATES profile of
        Some (p, r) \<Rightarrow> Registered p r
      | None \<Rightarrow> if profile \<in> set object_prototype then Inherited else Missing)"

fun templates_prompt :: "templates \<Rightarrow> error + json option" where
  "templates_prompt (Registered p r) = Inr (Some (JStr p))"
| "templates_prompt Inherited = Inr None"
| "templates_prompt Missing = Inl (cannot_read ''undefined'' ''prompt'')"

fun templates_response :: "templates \<Rightarrow> error + json option" where
  "templates_response (Registered p r) = Inr (Some (JStr r))"
| "templates_response Inherited = Inr None"
| "templates_response Missing = Inl (cannot_read ''undefined'' ''response'')"

text \<open>
  \<open>toLowerCase\<close> on the letters that matter for the comparison with \<open>'true'\<close>: no
  character outside ASCII lowers to one of \<open>t\<close>, \<open>r\<close>, \<open>u\<close>, \<open>e\<close>.
\<close>

definition to_lower :: "char \<Rightarrow> char" where
  "to_lower c =
     (let n = (of_char c :: nat) in if 65 \<le> n \<and> n \<le> 90 then char_of (n + 32) else c)"

definition isModelArmorEnabled :: "world \<Rightarrow> bool" where
  "isModelArmorEnabled w =
     (case env w ''ENABLE_MODEL_ARMOR'' of
        None \<Rightarrow> False
      | Some v \<Rightarrow> map to_lower v = ''true'')"

section \<open>Backend generation (\<open>chat/route.ts\<close>)\<close>

text \<open>
  The value of \<open>fullText\<close> in \<open>collectStreamingResponse\<close>. It starts as the empty string;
  a part without \<open>text\<close> makes \<open>newText\<close> \<open>undefined\<close>, and then \<open>fullText = newText\<close> and
  \<open>fullText += newText\<close> follow JavaScript's \<open>+\<close>: a string operand concatenates (an
  \<open>undefined\<close> operand reads "undefined", \<open>NaN\<close> reads "NaN"), and \<open>undefined + undefined\<close>
  is \<open>NaN\<close>.
\<close>

datatype js_text = Str string | Undef | NaN

fun js_plus :: "js_text \<Rightarrow> string option \<Rightarrow> js_text" where
  "js_plus (Str a) (Some b) = Str (a @ b)"
| "js_plus (Str a) None = Str (a @ ''undefined'')"
| "js_plus Undef (Some b) = Str (''undefined'' @ b)"
| "js_plus Undef None = NaN"
| "js_plus NaN (Some b) = Str (''NaN'' @ b)"
| "js_plus NaN None = NaN"

fun js_assign :: "string option \<Rightarrow> js_text" where
  "js_assign (Some b) = Str b"
| "js_assign None = Undef"

text \<open>
  The two variables of the loop. Of \<open>lastValidJson\<close> only
  \<open>lastValidJson?.content?.parts?.[0]?.text\<close> is ever read.
\<close>

record collector =
  fullText :: js_text
  lastValidText :: "string option"

fun sse_step :: "collector \<Rightarrow> sse_line \<Rightarrow> collector" where
  "sse_step c NotData = c"
| "sse_step c BadJson = c"
| "sse_step c NoPart = c\<lparr>lastValidText := None\<rparr>"
| "sse_step c (Part incremental newText) =
     \<lparr>fullText = (if incremental then js_plus (fullText c) newText else js_assign newText),
      lastValidText = newText\<rparr>"

definition collected :: "sse_line list list \<Rightarrow> collector" where
  "collected cs =
     foldl (\<lambda>c chunk. foldl sse_step c chunk) \<lparr>fullText = Str [], lastValidText = None\<rparr> cs"

definition final_text :: "collector \<Rightarrow> string" where
  "final_text c =
     (let fallback =
        (case lastValidText c of
           Some t \<Rightarrow> if t \<noteq> [] then t else ''No response generated''
         | None \<Rightarrow> ''No response generated'')
      in case fullText c of
           Str t \<Rightarrow> if t \<noteq> [] then t else fallback
         | Undef \<Rightarrow> fallback
         | NaN \<Rightarrow> fallback)"

definition collectStreamingResponse :: "http_response \<Rightarrow> error + string" where
  "collectStreamingResponse r =
     (case bodyStream r of
        None \<Rightarrow> Inl (Error ''No response body available'')
      | Some b \<Rightarrow>
          (case failure b of
             Some e \<Rightarrow> Inl e
           | None \<Rightarrow> Inr (final_text (collected (chunks b)))))"

definition backend_failed :: "string \<Rightarrow> http_response \<Rightarrow> error" where
  "backend_failed name r =
     Error (name @ '' API failed: '' @ show_nat (status r) @ '' '' @ statusText r @ '' - ''
            @ bodyText r)"

definition callLocalBackend ::
  "world \<Rightarrow> state \<Rightarrow> json \<Rightarrow> json option \<Rightarrow> json option \<Rightarrow> (error + json) \<times> state" where
  "callLocalBackend w s prompt uid sid =
     (let s1 = await w BackendAuth s in
      case getAuthHeaders w of
        Some e \<Rightarrow> (Inl e, s1)
      | None \<Rightarrow>
          (let s2 = await w (BackendCall LocalBackend prompt) s1 in
           case backend w LocalBackend prompt uid sid of
             Rejected e \<Rightarrow> (Inl e, s2)
           | Responded r \<Rightarrow>
               if \<not> ok r then (Inl (backend_failed ''Local backend'' r), s2)
               else (map_sum id JStr (collectStreamingResponse r), s2)))"

text \<open>Element 0 of an array, string or object (\<open>x[0]\<close>), and \<open>a && f(a)\<close>.\<close>

fun js_at0 :: "json option \<Rightarrow> error + json option" where
  "js_at0 None = Inl (cannot_read ''undefined'' ''0'')"
| "js_at0 (Some JNull) = Inl (cannot_read ''null'' ''0'')"
| "js_at0 (Some (JArr xs)) = Inr (case xs of [] \<Rightarrow> None | x # _ \<Rightarrow> Some x)"
| "js_at0 (Some (JStr cs)) = Inr (case cs of [] \<Rightarrow> None | c # _ \<Rightarrow> Some (JStr [c]))"
| "js_at0 (Some (JObj kvs)) = Inr (map_of kvs ''0'')"
| "js_at0 (Some v) = Inr None"

definition js_and :: "json option \<Rightarrow> (json option \<Rightarrow> error + json option) \<Rightarrow> error + json option" where
  "js_and a f = (if js_truthy a then f a else Inr None)"

text \<open>
  The text \<open>callAgentEngine\<close> extracts from the response: \<open>None\<close> when one of the two
  guards is falsy and the function falls through to \<open>JSON.stringify(data)\<close>.
\<close>

definition candidate_text :: "json \<Rightarrow> error + json option" where
  "candidate_text data =
     bindE (js_get (Some data) ''candidates'') (\<lambda>candidates.
     js_and candidates (\<lambda>candidates.
     bindE (js_at0 candidates) (\<lambda>c0.
     js_and c0 (\<lambda>c0.
     bindE (js_get c0 ''content'') (\<lambda>content.
     js_and content (\<lambda>content.
     bindE (js_get content ''parts'') (\<lambda>parts.
     js_and parts (\<lambda>parts.
     bindE (js_at0 parts) (\<lambda>p0.
     js_and p0 (\<lambda>p0.
     bindE (js_get p0 ''text'') (\<lambda>t.
     js_and t Inr)))))))))))"

definition callAgentEngine ::
  "world \<Rightarrow> state \<Rightarrow> json \<Rightarrow> json option \<Rightarrow> json option \<Rightarrow> (error + json) \<times> state" where
  "callAgentEngine w s prompt uid sid =
     (let s1 = await w BackendAuth s in
      case getAuthHeaders w of
        Some e \<Rightarrow> (Inl e, s1)
      | None \<Rightarrow>
          (let s2 = await w (BackendCall AgentEngine prompt) s1 in
           case backend w AgentEngine prompt uid sid of
             Rejected e \<Rightarrow> (Inl e, s2)
           | Responded r \<Rightarrow>
               if \<not> ok r then (Inl (backend_failed ''Agent Engine'' r), s2)
               else (case bodyJson r of
                       None \<Rightarrow> (Inl not_json, s2)
                     | Some data \<Rightarrow>
                         (case candidate_text data of
                            Inl e \<Rightarrow> (Inl e, s2)
                          | Inr (Some t) \<Rightarrow> (Inr t, s2)
                          | Inr None \<Rightarrow> (Inr (JStr (stringify w data)), s2)))))"

definition generateAIResponse ::
  "world \<Rightarrow> state \<Rightarrow> json \<Rightarrow> json option \<Rightarrow> json option \<Rightarrow> (error + json) \<times> state" where
  "generateAIResponse w s prompt sid uid =
     (if shouldUseAgentEngine w then callAgentEngine w s prompt uid sid
      else callLocalBackend w s prompt uid sid)"

section \<open>The aggregated chat endpoint (\<open>chat/route.ts\<close>, \<open>POST\<close>)\<close>

text \<open>
  The request after \<open>await req.json()\<close> and the destructuring: the body is not JSON, or
  it is \<open>null\<close> (destructuring throws), or it yields the fields. \<open>message\<close>, \<open>sessionId\<close>
  and \<open>userId\<close> are arbitrary values; \<open>safetyProfile\<close> is taken at its declared type, a
  string when present. The rest of the body (\<open>...context\<close>) is passed on but never read.
\<close>

record ChatRequest =
  message :: "json option"
  safetyProfile :: "string option"
  sessionId :: "json option"
  userId :: "json option"

datatype request = NotJson error | NullBody | Body ChatRequest

record reply =
  code :: nat
  payload :: json

definition details_json :: "SafetyDetails \<Rightarrow> json" where
  "details_json d =
     JObj
       ((case sensitiveData d of Some l \<Rightarrow> [(''sensitiveData'', JStr l)] | None \<Rightarrow> []) @
        (case promptInjection d of Some l \<Rightarrow> [(''promptInjection'', JStr l)] | None \<Rightarrow> []) @
        (case maliciousUrls d of Some l \<Rightarrow> [(''maliciousUrls'', JStr l)] | None \<Rightarrow> []) @
        (case responsibleAI d of
           Some r \<Rightarrow>
             [(''responsibleAI'',
               JObj [(''overall'', JStr (overall r)),
                     (''sexuallyExplicit'', JStr (sexuallyExplicit r)),
                     (''hateSpeech'', JStr (hateSpeech r)),
                     (''harassment'', JStr (harassment r)),
                     (''dangerous'', JStr (dangerous r))])]
         | None \<Rightarrow> []))"

definition details_or_null :: "SafetyResult option \<Rightarrow> json" where
  "details_or_null v = (case v of Some r \<Rightarrow> details_json (details r) | None \<Rightarrow> JNull)"

definition profile_of :: "ChatRequest \<Rightarrow> string" where
  "profile_of b = (case safetyProfile b of Some p \<Rightarrow> p | None \<Rightarrow> ''balanced'')"

definition message_required :: reply where
  "message_required = \<lparr>code = 400, payload = JObj [(''error'', JStr ''Message is required'')]\<rparr>"

definition unsafe_prompt :: "SafetyResult \<Rightarrow> reply" where
  "unsafe_prompt promptSafety =
     \<lparr>code = 200,
      payload = JObj
        [(''response'', JStr
            ''I cannot process that request due to safety concerns. Please rephrase your question.''),
         (''blocked'', JBool True),
         (''reason'', JStr ''unsafe_prompt''),
         (''safetyDetails'',
            JObj [(''prompt'', details_json (details promptSafety)), (''response'', JNull)])]\<rparr>"

definition generation_error :: "error \<Rightarrow> reply" where
  "generation_error e =
     \<lparr>code = 500,
      payload = JObj
        [(''response'', JStr ''I'm experiencing technical difficulties. Please try again later.''),
         (''blocked'', JBool True),
         (''reason'', JStr ''generation_error''),
         (''error'', JStr (message_of e))]\<rparr>"

definition unsafe_response :: "SafetyResult option \<Rightarrow> SafetyResult \<Rightarrow> reply" where
  "unsafe_response promptSafety responseSafety =
     \<lparr>code = 200,
      payload = JObj
        [(''response'', JStr
            ''I apologize, but I cannot provide that response due to safety policies.''),
         (''blocked'', JBool True),
         (''reason'', JStr ''unsafe_response''),
         (''safetyDetails'',
            JObj [(''prompt'', details_or_null promptSafety),
                  (''response'', details_json (details responseSafety))])]\<rparr>"

text \<open>
  The reply of step 4. Its \<open>metadata\<close> entry (whether the input was rewritten, the profile
  and the templates in use) is left out of the model: no property below reads it.
\<close>

definition safe_response ::
  "json \<Rightarrow> SafetyResult option \<Rightarrow> SafetyResult option \<Rightarrow> reply" where
  "safe_response aiResponse promptSafety responseSafety =
     \<lparr>code = 200,
      payload = JObj
        [(''response'', aiResponse),
         (''blocked'', JBool False),
         (''safetyDetails'',
            JObj [(''prompt'', details_or_null promptSafety),
                  (''response'', details_or_null responseSafety)])]\<rparr>"

definition internal_error :: reply where
  "internal_error =
     \<lparr>code = 500,
      payload = JObj
        [(''error'', JStr ''Internal server error''),
         (''response'', JStr ''I apologize, but I encountered an error. Please try again.'')]\<rparr>"

text \<open>Step 3 and step 4: classify the generated text, then answer.\<close>

definition chat_step3 ::
  "world \<Rightarrow> state \<Rightarrow> ChatRequest \<Rightarrow> SafetyResult option \<Rightarrow> json \<Rightarrow> (error + reply) \<times> state" where
  "chat_step3 w s b promptSafety aiResponse =
     (if isModelArmorEnabled w then
        (case templates_response (getTemplates (profile_of b)) of
           Inl e \<Rightarrow> (Inl e, s)
         | Inr t \<Rightarrow>
             (case sanitizeResponse w s aiResponse t of
                (responseSafety, s') \<Rightarrow>
                  if blocked responseSafety
                  then (Inr (unsafe_response promptSafety responseSafety), s')
                  else (Inr (safe_response aiResponse promptSafety (Some responseSafety)), s')))
      else (Inr (safe_response aiResponse promptSafety None), s))"

text \<open>Step 2: generate, with the inner \<open>try\<close>/\<open>catch\<close>.\<close>

definition chat_step2 ::
  "world \<Rightarrow> state \<Rightarrow> ChatRequest \<Rightarrow> SafetyResult option \<Rightarrow> json \<Rightarrow> (error + reply) \<times> state" where
  "chat_step2 w s b promptSafety sanitizedInput =
     (case generateAIResponse w s sanitizedInput (sessionId b) (userId b) of
        (Inl e, s') \<Rightarrow> (Inr (generation_error e), s')
      | (Inr aiResponse, s') \<Rightarrow> chat_step3 w s' b promptSafety aiResponse)"

text \<open>Step 1: classify the prompt. The message is truthy here.\<close>

definition chat_step1 ::
  "world \<Rightarrow> state \<Rightarrow> ChatRequest \<Rightarrow> json \<Rightarrow> (error + reply) \<times> state" where
  "chat_step1 w s b msg =
     (if isModelArmorEnabled w then
        (case templates_prompt (getTemplates (profile_of b)) of
           Inl e \<Rightarrow> (Inl e, s)
         | Inr t \<Rightarrow>
             (case sanitizePrompt w s msg t of
                (promptSafety, s') \<Rightarrow>
                  if blocked promptSafety then (Inr (unsafe_prompt promptSafety), s')
                  else
                    (case js_or (sanitizedText promptSafety) (Some msg) of
                       Some sanitizedInput \<Rightarrow>
                         chat_step2 w s' b (Some promptSafety) sanitizedInput
                     | None \<Rightarrow> chat_step2 w s' b (Some promptSafety) msg)))
      else chat_step2 w s b None msg)"

definition chat_try :: "world \<Rightarrow> state \<Rightarrow> request \<Rightarrow> (error + reply) \<times> state" where
  "chat_try w s req =
     (case req of
        NotJson e \<Rightarrow> (Inl e, s)
      | NullBody \<Rightarrow> (Inl (cannot_destructure ''message''), s)
      | Body b \<Rightarrow>
          (case message b of
             None \<Rightarrow> (Inr message_required, s)
           | Some msg \<Rightarrow>
               if \<not> js_truthy (Some msg) then (Inr message_required, s)
               else chat_step1 w s b msg))"

definition POST :: "world \<Rightarrow> state \<Rightarrow> request \<Rightarrow> reply \<times> state" where
  "POST w s req =
     (case chat_try w s req of
        (Inr r, s') \<Rightarrow> (r, s')
      | (Inl e, s') \<Rightarrow> (internal_error, s'))"

section \<open>The classifier test endpoint (\<open>model-armor/sanitize\<close>, \<open>POST\<close>)\<close>

record SanitizeRequest =
  text_field :: "json option"
  type_field :: "json option"
  templateId :: "json option"

datatype sanitize_request = SNotJson error | SNullBody | SBody SanitizeRequest

definition opt_entry :: "string \<Rightarrow> json option \<Rightarrow> (string \<times> json) list" where
  "opt_entry k v = (case v of Some x \<Rightarrow> [(k, x)] | None \<Rightarrow> [])"

definition sanitize_reply :: "world \<Rightarrow> SafetyResult \<Rightarrow> reply" where
  "sanitize_reply w result =
     \<lparr>code = 200,
      payload = JObj
        ([(''isSafe'', JBool (isSafe result)), (''blocked'', JBool (blocked result))] @
         opt_entry ''text'' (sanitizedText result) @
         opt_entry ''matchState'' (matchState result) @
         [(''details'', details_json (details result))] @
         opt_entry ''debug''
           (if env w ''NODE_ENV'' = Some ''development'' then Some (rawResponse result)
            else None))\<rparr>"

definition sanitize_try_route ::
  "world \<Rightarrow> state \<Rightarrow> sanitize_request \<Rightarrow> (error + reply) \<times> state" where
  "sanitize_try_route w s req =
     (case req of
        SNotJson e \<Rightarrow> (Inl e, s)
      | SNullBody \<Rightarrow>
          (Inl (if isModelArmorEnabled w then cannot_destructure ''text''
                else cannot_read ''null'' ''text''), s)
      | SBody b \<Rightarrow>
          if \<not> isModelArmorEnabled w then
            (Inr \<lparr>code = 200,
                  payload = JObj
                    ([(''isSafe'', JBool True), (''blocked'', JBool False)] @
                     opt_entry ''text'' (text_field b) @
                     [(''details'', JObj [(''disabled'', JBool True)])])\<rparr>, s)
          else
            (case text_field b of
               None \<Rightarrow>
                 (Inr \<lparr>code = 400, payload = JObj [(''error'', JStr ''Text is required'')]\<rparr>, s)
             | Some txt \<Rightarrow>
                 if \<not> js_truthy (Some txt) then
                   (Inr \<lparr>code = 400, payload = JObj [(''error'', JStr ''Text is required'')]\<rparr>, s)
                 else
                   (case (if type_field b = Some (JStr ''response'')
                          then sanitizeResponse w s txt (templateId b)
                          else sanitizePrompt w s txt (templateId b)) of
                      (result, s') \<Rightarrow> (Inr (sanitize_reply w result), s'))))"

text \<open>
  The \<open>catch\<close> block reads the body a second time; it has been consumed by then, the read
  rejects and \<open>text\<close> is the empty string.
\<close>

definition sanitize_POST :: "world \<Rightarrow> state \<Rightarrow> sanitize_request \<Rightarrow> reply \<times> state" where
  "sanitize_POST w s req =
     (case sanitize_try_route w s req of
        (Inr r, s') \<Rightarrow> (r, s')
      | (Inl e, s') \<Rightarrow>
          (\<lparr>code = 500,
            payload = JObj
              [(''error'', JStr ''Model Armor service unavailable''),
               (''isSafe'', JBool True),
               (''blocked'', JBool False),
               (''text'', JStr [])]\<rparr>, s'))"

section \<open>Vocabulary of the properties\<close>

text \<open>A cached credential with more than five minutes of validity left.\<close>

definition has_valid_cache :: "state \<Rightarrow> bool" where
  "has_valid_cache s =
     (case cachedAuth s of Some a \<Rightarrow> clock s < expiresAt a - 300000 | None \<Rightarrow> False)"

text \<open>The invariant of a classification verdict.\<close>

definition verdict_invariant :: "SafetyResult \<Rightarrow> bool" where
  "verdict_invariant v =
     (blocked v = (matchState v = Some (JNum 2)) \<and> isSafe v = (\<not> blocked v))"

text \<open>
  The failures of a classification call: no credential, a \<open>fetch\<close> that rejects, a status
  outside 200..299, a body that is not JSON, and a JSON body on which \<open>parseResponse\<close>
  throws.
\<close>

definition remote_failure :: "direction \<Rightarrow> world \<Rightarrow> state \<Rightarrow> json \<Rightarrow> json \<Rightarrow> bool" where
  "remote_failure dir w s text template =
     (case getAccessToken w s of
        (Inl e, s1) \<Rightarrow> True
      | (Inr token, s1) \<Rightarrow>
          (case classifier w dir template text token of
             Rejected e \<Rightarrow> True
           | Responded r \<Rightarrow>
               \<not> ok r \<or>
               (case bodyJson r of
                  None \<Rightarrow> True
                | Some data \<Rightarrow> isl (parseResponse data text))))"

definition is_fail_open :: "SafetyResult \<Rightarrow> json \<Rightarrow> bool" where
  "is_fail_open v text =
     (isSafe v \<and> \<not> blocked v \<and> matchState v = Some (JNum 0) \<and> sanitizedText v = Some text \<and>
      details v = no_details)"





text \<open>The events of backend generation.\<close>

fun is_backend_event :: "event \<Rightarrow> bool" where
  "is_backend_event BackendAuth = True"
| "is_backend_event (BackendCall t p) = True"
| "is_backend_event e = False"

text \<open>
  The aggregation the specification describes, over fragments tagged incremental or
  final: an incremental fragment is appended to the accumulator, a final fragment
  replaces it. \<open>fragments_of\<close> reads the fragments off the lines of a stream, in order.
\<close>

definition aggregate :: "(bool \<times> string) list \<Rightarrow> string" where
  "aggregate fs = foldl (\<lambda>acc (incremental, t). if incremental then acc @ t else t) [] fs"

fun fragment_of :: "sse_line \<Rightarrow> (bool \<times> string) list" where
  "fragment_of (Part incremental (Some t)) = [(incremental, t)]"
| "fragment_of l = []"

definition fragments_of :: "sse_line list list \<Rightarrow> (bool \<times> string) list" where
  "fragments_of cs = concat (map fragment_of (concat cs))"

fun has_text :: "sse_line \<Rightarrow> bool" where
  "has_text (Part incremental None) = False"
| "has_text l = True"

text \<open>
  The invariant of the aggregation loop: when the last parsed payload has a non-empty
  text, \<open>fullText\<close> is a non-empty string.
\<close>

definition last_text_kept :: "collector \<Rightarrow> bool" where
  "last_text_kept c =
     (case lastValidText c of
        None \<Rightarrow> True
      | Some t \<Rightarrow> t = [] \<or> (case fullText c of Str u \<Rightarrow> u \<noteq> [] | Undef \<Rightarrow> False | NaN \<Rightarrow> False))"

definition streamed :: "sse_line list list \<Rightarrow> http_response" where
  "streamed cs =
     \<lparr>status = 200, statusText = ''OK'', bodyText = [], bodyJson = None,
      bodyStream = Some \<lparr>chunks = cs, failure = None\<rparr>\<rparr>"

section \<open>Example worlds\<close>

text \<open>
  A world in which the classifier is enabled, the identity provider answers with a
  token, and every other network call fails; the examples below change one answer at a
  time.
\<close>

definition offline :: world where
  "offline =
     \<lparr>env = (\<lambda>k. if k = ''ENABLE_MODEL_ARMOR'' then Some ''TRUE''
                 else if k = ''NODE_ENV'' then Some ''production'' else None),
      identity = (\<lambda>t. Inr (Some ''ya29.token'')),
      classifier = (\<lambda>d template text token. Rejected (TypeError ''fetch failed'')),
      shouldUseAgentEngine = False,
      getAuthHeaders = None,
      backend = (\<lambda>t prompt uid sid. Rejected (TypeError ''fetch failed'')),
      stringify = (\<lambda>j. ''{}''),
      elapsed = (\<lambda>e. 120)\<rparr>"

definition cold :: state where
  "cold = \<lparr>cachedAuth = None, clock = 1000, trace = []\<rparr>"

definition warm :: state where
  "warm = \<lparr>cachedAuth = Some \<lparr>accessToken = ''ya29.old'', expiresAt = 3600000\<rparr>,
           clock = 3299999, trace = []\<rparr>"

definition stale :: state where
  "stale = \<lparr>cachedAuth = Some \<lparr>accessToken = ''ya29.old'', expiresAt = 3600000\<rparr>,
            clock = 3300000, trace = []\<rparr>"

definition json_response :: "nat \<Rightarrow> json \<Rightarrow> http_response" where
  "json_response st j =
     \<lparr>status = st, statusText = [], bodyText = [], bodyJson = Some j, bodyStream = None\<rparr>"

definition answering :: "json \<Rightarrow> world" where
  "answering j = offline\<lparr>classifier := (\<lambda>d template text token. Responded (json_response 200 j))\<rparr>"

text \<open>
  A success response that blocks: the overall match state is 2, the sensitive-data filter
  has rewritten the text and the responsible-AI filter reports a dangerous match.
\<close>

definition blocking_body :: json where
  "blocking_body =
     JObj [(''sanitizationResult'',
       JObj [(''filterMatchState'', JNum 2),
             (''filterResults'',
                JObj [(''sdp'', JObj [(''sdpFilterResult'',
                        JObj [(''deidentifyResult'',
                          JObj [(''matchState'', JNum 2),
                                (''data'', JObj [(''text'', JStr ''call [PHONE]'')])])])]),
                      (''rai'', JObj [(''raiFilterResult'',
                        JObj [(''matchState'', JNum 2),
                              (''raiFilterTypeResults'',
                                 JObj [(''dangerous'', JObj [(''matchState'', JNum 2)])])])])])])]"




text \<open>A classifier that answers 503, and a success response that finds nothing.\<close>

definition unavailable :: world where
  "unavailable =
     offline\<lparr>classifier := (\<lambda>d template text token.
       Responded \<lparr>status = 503, statusText = ''Service Unavailable'',
                  bodyText = ''upstream connect error'', bodyJson = None, bodyStream = None\<rparr>)\<rparr>"

definition cleared :: json where
  "cleared = JObj [(''sanitizationResult'', JObj [(''filterMatchState'', JNum 1)])]"

text \<open>
  Requests, and a production deployment whose classifier finds nothing and whose local
  backend answers 503.
\<close>

definition asking :: "string \<Rightarrow> request" where
  "asking m = Body \<lparr>message = Some (JStr m), safetyProfile = None,
                    sessionId = Some (JStr ''s-1''), userId = Some (JStr ''u-1'')\<rparr>"

definition no_message :: request where
  "no_message = Body \<lparr>message = None, safetyProfile = None,
                      sessionId = Some (JStr ''s-1''), userId = Some (JStr ''u-1'')\<rparr>"

definition backend_down :: world where
  "backend_down =
     (answering cleared)\<lparr>backend := (\<lambda>t prompt uid sid.
       Responded \<lparr>status = 503, statusText = ''Service Unavailable'',
                  bodyText = ''connect ECONNREFUSED 10.0.0.5:8000'', bodyJson = None,
                  bodyStream = None\<rparr>)\<rparr>"

text \<open>
  A response that announces a block but names the sensitive-data category without its
  result.
\<close>

definition truncated_block :: json where
  "truncated_block =
     JObj [(''sanitizationResult'',
       JObj [(''filterMatchState'', JNum 2), (''filterResults'', JObj [(''sdp'', JObj [])])])]"

section \<open>Helper lemmas\<close>

lemma bindE_Inr_iff: "bindE m f = Inr y \<longleftrightarrow> (\<exists>x. m = Inr x \<and> f x = Inr y)"
  by (cases m) (simp_all add: bindE_def)

lemma bindE_simps [simp]: "bindE (Inl e) f = Inl e" "bindE (Inr x) f = f x"
  by (simp_all add: bindE_def)

lemma js_opt_Some_obj:
  "js_opt x k = Some v \<Longrightarrow> \<exists>kvs. x = Some (JObj kvs) \<and> map_of kvs k = Some v"
  by (cases "(x, k)" rule: js_opt.cases) auto


section \<open>The credential cache\<close>

lemma fetchToken_trace: "trace (snd (fetchToken w s)) = trace s @ [TokenExchange]"
  by (simp add: fetchToken_def await_def Let_def split: sum.splits option.splits)

lemma getAccessToken_miss:
  "\<not> has_valid_cache s \<Longrightarrow> getAccessToken w s = fetchToken w s"
  by (simp add: getAccessToken_def has_valid_cache_def split: option.splits)

lemma fetchToken_ok:
  "identity w (clock s) = Inr (Some t) \<Longrightarrow> t \<noteq> [] \<Longrightarrow>
   fetchToken w s = (Inr t, (await w TokenExchange s)\<lparr>cachedAuth :=
      Some \<lparr>accessToken = t, expiresAt = clock (await w TokenExchange s) + 3600000\<rparr>\<rparr>)"
  by (simp add: fetchToken_def Let_def)

lemma fetchToken_fail:
  "\<not> (\<exists>t. identity w (clock s) = Inr (Some t) \<and> t \<noteq> []) \<Longrightarrow>
   fetchToken w s = (Inl auth_failed, await w TokenExchange s)"
  by (auto simp add: fetchToken_def Let_def split: sum.splits option.splits)

text \<open>
  C5. A call made while the cached token has more than five minutes left returns the
  cached token and changes nothing: no identity-provider call is made. Any other call
  makes exactly one token exchange. When the exchange yields a token, the call returns it
  and caches it with an expiry one hour after the exchange, and from then on every call
  made less than 55 minutes after the exchange returns that token without an exchange.
  When the exchange fails (it throws, or yields no token), the call raises the
  authentication error, returns no token and leaves the cache as it was: a token
  returned outside the validity window is always the one just fetched.
\<close>

theorem credential_cache:
  "(has_valid_cache s \<longrightarrow>
      (\<exists>a. cachedAuth s = Some a \<and> getAccessToken w s = (Inr (accessToken a), s)))
   \<and> (\<not> has_valid_cache s \<longrightarrow>
        trace (snd (getAccessToken w s)) = trace s @ [TokenExchange])
   \<and> (\<not> has_valid_cache s \<and> identity w (clock s) = Inr (Some t) \<and> t \<noteq> [] \<longrightarrow>
        fst (getAccessToken w s) = Inr t \<and>
        cachedAuth (snd (getAccessToken w s)) =
          Some \<lparr>accessToken = t, expiresAt = clock (snd (getAccessToken w s)) + 3600000\<rparr> \<and>
        (\<forall>w' s'. cachedAuth s' = cachedAuth (snd (getAccessToken w s)) \<and>
                  clock s' < clock (snd (getAccessToken w s)) + 3300000 \<longrightarrow>
                  getAccessToken w' s' = (Inr t, s')))
   \<and> (\<not> has_valid_cache s \<and> \<not> (\<exists>t. identity w (clock s) = Inr (Some t) \<and> t \<noteq> []) \<longrightarrow>
        fst (getAccessToken w s) = Inl auth_failed \<and>
        cachedAuth (snd (getAccessToken w s)) = cachedAuth s)
   \<and> (\<not> has_valid_cache s \<and> fst (getAccessToken w s) = Inr t \<longrightarrow>
        identity w (clock s) = Inr (Some t))"
proof (intro conjI impI allI)
  assume "has_valid_cache s"
  then show "\<exists>a. cachedAuth s = Some a \<and> getAccessToken w s = (Inr (accessToken a), s)"
    by (auto simp: has_valid_cache_def getAccessToken_def split: option.splits)
next
  assume "\<not> has_valid_cache s"
  then show "trace (snd (getAccessToken w s)) = trace s @ [TokenExchange]"
    by (simp add: getAccessToken_miss fetchToken_trace)
next
  assume h: "\<not> has_valid_cache s \<and> identity w (clock s) = Inr (Some t) \<and> t \<noteq> []"
  then show "fst (getAccessToken w s) = Inr t"
    by (simp add: getAccessToken_miss fetchToken_ok)
  from h show "cachedAuth (snd (getAccessToken w s)) =
          Some \<lparr>accessToken = t, expiresAt = clock (snd (getAccessToken w s)) + 3600000\<rparr>"
    by (simp add: getAccessToken_miss fetchToken_ok)
  fix w' :: world and s' :: state
  assume "cachedAuth s' = cachedAuth (snd (getAccessToken w s)) \<and>
          clock s' < clock (snd (getAccessToken w s)) + 3300000"
  then have a: "cachedAuth s' = cachedAuth (snd (getAccessToken w s))"
    and b: "clock s' < clock (snd (getAccessToken w s)) + 3300000" by simp_all
  from h have c: "cachedAuth (snd (getAccessToken w s)) =
      Some \<lparr>accessToken = t, expiresAt = clock (snd (getAccessToken w s)) + 3600000\<rparr>"
    by (simp add: getAccessToken_miss fetchToken_ok)
  show "getAccessToken w' s' = (Inr t, s')"
    unfolding getAccessToken_def [of w' s'] a using b by (subst c) simp
next
  assume h: "\<not> has_valid_cache s \<and> \<not> (\<exists>t. identity w (clock s) = Inr (Some t) \<and> t \<noteq> [])"
  then show "fst (getAccessToken w s) = Inl auth_failed"
    by (simp add: getAccessToken_miss fetchToken_fail)
  from h show "cachedAuth (snd (getAccessToken w s)) = cachedAuth s"
    by (simp add: getAccessToken_miss fetchToken_fail await_def)
next
  assume "\<not> has_valid_cache s \<and> fst (getAccessToken w s) = Inr t"
  then show "identity w (clock s) = Inr (Some t)"
    by (auto simp: getAccessToken_miss fetchToken_def Let_def
          split: sum.splits option.splits if_splits)
qed

theorem credential_cache_witness:
  "has_valid_cache warm \<and> getAccessToken offline warm = (Inr ''ya29.old'', warm)
   \<and> \<not> has_valid_cache stale
   \<and> trace (snd (getAccessToken offline stale)) = [TokenExchange]
   \<and> fst (getAccessToken offline stale) = Inr ''ya29.token''
   \<and> cachedAuth (snd (getAccessToken offline stale)) =
       Some \<lparr>accessToken = ''ya29.token'', expiresAt = 6900120\<rparr>
   \<and> fst (getAccessToken (offline\<lparr>identity := (\<lambda>t. Inr None)\<rparr>) stale) = Inl auth_failed"
  using credential_cache [of warm offline "''ya29.token''"]
    credential_cache [of stale offline "''ya29.token''"]
    credential_cache [of stale "offline\<lparr>identity := (\<lambda>t. Inr None)\<rparr>" "''ya29.token''"]
  by (simp add: has_valid_cache_def warm_def stale_def offline_def await_def
        getAccessToken_def fetchToken_def)

section \<open>The classifier client\<close>

lemma parseResponse_invariant:
  "parseResponse api inp = Inr v \<Longrightarrow> verdict_invariant v"
  by (auto simp: parseResponse_def bindE_Inr_iff verdict_invariant_def Let_def)

lemma fail_open_invariant: "verdict_invariant (fail_open inp e)"
  by (simp add: fail_open_def verdict_invariant_def)

lemma sanitize_cases:
  "(\<exists>e. fst (sanitize dir w s inp t) = fail_open inp e) \<or>
   (\<exists>data. parseResponse data inp = Inr (fst (sanitize dir w s inp t)))"
  by (auto simp: sanitize_def sanitize_try_def Let_def
        split: prod.splits sum.splits fetch_result.splits option.splits)

lemma sanitize_invariant: "verdict_invariant (fst (sanitize dir w s inp t))"
  using sanitize_cases [of dir w s inp t]
  by (auto simp: fail_open_invariant dest: parseResponse_invariant)

text \<open>
  C4. Every verdict the client produces, from a parsed success response or from the
  fail-open path, satisfies \<open>blocked = (matchState = 2)\<close> and \<open>isSafe = (\<not> blocked)\<close>.
\<close>

theorem verdict_invariant_holds:
  "verdict_invariant (fst (sanitizePrompt w s inp t))
   \<and> verdict_invariant (fst (sanitizeResponse w s inp t))
   \<and> verdict_invariant (fail_open inp e)
   \<and> (\<forall>v. parseResponse api inp = Inr v \<longrightarrow> verdict_invariant v)"
  by (simp add: sanitizePrompt_def sanitizeResponse_def sanitize_invariant
        fail_open_invariant parseResponse_invariant)

lemma parse_blocking_body:
  "parseResponse blocking_body inp =
     Inr \<lparr>isSafe = False, blocked = True, matchState = Some (JNum 2), sanitizedText = Some inp,
          details = \<lparr>sensitiveData = Some ''blocked'', promptInjection = None,
            maliciousUrls = None,
            responsibleAI = Some \<lparr>overall = ''blocked'', sexuallyExplicit = ''not_assessed'',
              hateSpeech = ''not_assessed'', harassment = ''not_assessed'',
              dangerous = ''blocked''\<rparr>\<rparr>,
          rawResponse = blocking_body\<rparr>"
  by (simp add: parseResponse_def blocking_body_def filterResults_of_def deidentified_def
        parseDetails_def sdp_block_def pi_block_def uri_block_def rai_block_def rai_type_def
        js_or_def getMatchStateMessage_def no_details_def)

theorem verdict_invariant_holds_witness:
  "verdict_invariant (fst (sanitizePrompt (answering blocking_body) cold (JStr ''call 555-0100'') None))
   \<and> blocked (fst (sanitizePrompt (answering blocking_body) cold (JStr ''call 555-0100'') None))
   \<and> verdict_invariant (fst (sanitizeResponse offline cold (JStr ''hello'') None))
   \<and> \<not> blocked (fst (sanitizeResponse offline cold (JStr ''hello'') None))"
  using verdict_invariant_holds [of "answering blocking_body" cold "JStr ''call 555-0100''" None]
    verdict_invariant_holds [of offline cold "JStr ''hello''" None]
  by (simp add: sanitizePrompt_def sanitizeResponse_def sanitize_def sanitize_try_def
        getAccessToken_def fetchToken_def cold_def offline_def answering_def await_def
        json_response_def ok_def parse_blocking_body fail_open_def)

text \<open>
  C3. When the response carries \<open>filterMatchState = 2\<close>, \<open>parseResponse\<close> either throws
  where \<open>parseDetails\<close> throws, or returns the verdict with \<open>blocked = true\<close>,
  \<open>isSafe = false\<close> and the original text as \<open>sanitizedText\<close>, whatever rewrite the
  response contains. A verdict whose \<open>sanitizedText\<close> is not the original text is not
  blocked.
\<close>

theorem blocked_reports_original:
  "(js_opt (js_opt (Some api) ''sanitizationResult'') ''filterMatchState'' = Some (JNum 2) \<longrightarrow>
      parseResponse api inp =
        bindE (parseDetails (filterResults_of
                 (js_opt (js_opt (Some api) ''sanitizationResult'') ''filterResults'')))
          (\<lambda>d. Inr \<lparr>isSafe = False, blocked = True, matchState = Some (JNum 2),
                    sanitizedText = Some inp, details = d, rawResponse = api\<rparr>))
   \<and> (\<forall>v. parseResponse api inp = Inr v \<and> sanitizedText v \<noteq> Some inp \<longrightarrow> \<not> blocked v)"
proof (intro conjI impI allI)
  assume m2: "js_opt (js_opt (Some api) ''sanitizationResult'') ''filterMatchState'' = Some (JNum 2)"
  then obtain kvs where sr: "js_opt (Some api) ''sanitizationResult'' = Some (JObj kvs)"
    and m: "map_of kvs ''filterMatchState'' = Some (JNum 2)"
    by (auto dest!: js_opt_Some_obj)
  from sr obtain top where api: "api = JObj top"
    and t: "map_of top ''sanitizationResult'' = Some (JObj kvs)"
    by (auto dest!: js_opt_Some_obj)
  show "parseResponse api inp =
        bindE (parseDetails (filterResults_of
                 (js_opt (js_opt (Some api) ''sanitizationResult'') ''filterResults'')))
          (\<lambda>d. Inr \<lparr>isSafe = False, blocked = True, matchState = Some (JNum 2),
                    sanitizedText = Some inp, details = d, rawResponse = api\<rparr>)"
    by (simp add: parseResponse_def api t m Let_def)
next
  fix v
  assume "parseResponse api inp = Inr v \<and> sanitizedText v \<noteq> Some inp"
  then show "\<not> blocked v"
    by (auto simp: parseResponse_def bindE_Inr_iff Let_def split: if_splits)
qed

theorem blocked_reports_original_witness:
  "js_opt (js_opt (Some blocking_body) ''sanitizationResult'') ''filterMatchState'' = Some (JNum 2)
   \<and> deidentified (filterResults_of
        (js_opt (js_opt (Some blocking_body) ''sanitizationResult'') ''filterResults''))
       = Some (JStr ''call [PHONE]'')
   \<and> map_sum id blocked (parseResponse blocking_body (JStr ''call 555-0100'')) = Inr True
   \<and> map_sum id sanitizedText (parseResponse blocking_body (JStr ''call 555-0100''))
       = Inr (Some (JStr ''call 555-0100''))"
  using blocked_reports_original [of blocking_body "JStr ''call 555-0100''"]
  by (simp add: parse_blocking_body)
     (simp add: blocking_body_def filterResults_of_def deidentified_def js_or_def)

text \<open>
  Where \<open>parseDetails\<close> throws there is no parsed verdict, and the caller fails open like
  on any other failure of the call.
\<close>

lemma truncated_block_fails_open:
  "parseResponse truncated_block inp = Inl (cannot_read ''undefined'' ''inspectResult'')
   \<and> blocked (fst (sanitizePrompt (answering truncated_block) cold inp None)) = False"
proof -
  have p: "parseResponse truncated_block inp = Inl (cannot_read ''undefined'' ''inspectResult'')"
    by (simp add: parseResponse_def truncated_block_def filterResults_of_def deidentified_def
          parseDetails_def sdp_block_def js_or_def)
  then show ?thesis
    by (simp add: sanitizePrompt_def sanitize_def sanitize_try_def getAccessToken_def
          fetchToken_def cold_def offline_def answering_def await_def json_response_def
          ok_def fail_open_def)
qed































lemma sanitize_failure:
  "remote_failure dir w s inp t \<Longrightarrow> \<exists>e. fst (sanitize dir w s inp t) = fail_open inp e"
  by (auto simp: remote_failure_def sanitize_def sanitize_try_def Let_def isl_def
        split: prod.splits sum.splits fetch_result.splits option.splits if_splits)

lemma fail_open_fields: "is_fail_open (fail_open inp e) inp"
  by (simp add: is_fail_open_def fail_open_def)

text \<open>
  C2. \<open>sanitizePrompt\<close> and \<open>sanitizeResponse\<close> return a verdict in every case (they are
  total: nothing is raised to the caller). When the classification call fails (no
  credential, a network error, a status outside 200..299, a body that is not JSON or on
  which the parser throws), the verdict is the fail-open one: \<open>isSafe = true\<close>,
  \<open>blocked = false\<close>, \<open>matchState = 0\<close>, the original text and empty details.
\<close>

theorem fails_open:
  "(remote_failure UserPrompt w s inp (prompt_template w t) \<longrightarrow>
      is_fail_open (fst (sanitizePrompt w s inp t)) inp)
   \<and> (remote_failure ModelResponse w s inp (response_template w t) \<longrightarrow>
        is_fail_open (fst (sanitizeResponse w s inp t)) inp)"
proof (intro conjI impI)
  assume "remote_failure UserPrompt w s inp (prompt_template w t)"
  from sanitize_failure [OF this] show "is_fail_open (fst (sanitizePrompt w s inp t)) inp"
    by (auto simp: sanitizePrompt_def fail_open_fields)
next
  assume "remote_failure ModelResponse w s inp (response_template w t)"
  from sanitize_failure [OF this] show "is_fail_open (fst (sanitizeResponse w s inp t)) inp"
    by (auto simp: sanitizeResponse_def fail_open_fields)
qed

theorem fails_open_witness:
  "remote_failure UserPrompt offline cold (JStr ''hi'') (prompt_template offline None)
   \<and> is_fail_open (fst (sanitizePrompt offline cold (JStr ''hi'') None)) (JStr ''hi'')
   \<and> remote_failure ModelResponse unavailable cold (JStr ''hi'') (response_template unavailable None)
   \<and> is_fail_open (fst (sanitizeResponse unavailable cold (JStr ''hi'') None)) (JStr ''hi'')
   \<and> remote_failure UserPrompt (answering (JObj [])) warm (JStr ''hi'')
        (prompt_template (answering (JObj [])) None)
   \<and> is_fail_open (fst (sanitizePrompt (answering (JObj [])) warm (JStr ''hi'') None)) (JStr ''hi'')"
  using fails_open [of offline cold "JStr ''hi''" None]
    fails_open [of unavailable cold "JStr ''hi''" None]
    fails_open [of "answering (JObj [])" warm "JStr ''hi''" None]
  by (simp add: remote_failure_def getAccessToken_def fetchToken_def cold_def warm_def
        offline_def unavailable_def answering_def await_def json_response_def ok_def
        parseResponse_def)

section \<open>The aggregated chat endpoint\<close>

lemma fetchToken_backend:
  "filter is_backend_event (trace (snd (fetchToken w s))) = filter is_backend_event (trace s)"
  by (simp add: fetchToken_trace)

lemma getAccessToken_backend:
  "filter is_backend_event (trace (snd (getAccessToken w s))) = filter is_backend_event (trace s)"
  by (simp add: getAccessToken_def fetchToken_backend split: option.splits)

lemma sanitize_backend:
  "filter is_backend_event (trace (snd (sanitize dir w s inp t))) = filter is_backend_event (trace s)"
proof -
  obtain r s1 where g: "getAccessToken w s = (r, s1)" by (cases "getAccessToken w s")
  with getAccessToken_backend [of w s]
  have "filter is_backend_event (trace s1) = filter is_backend_event (trace s)" by simp
  with g show ?thesis
    by (cases r)
       (auto simp: sanitize_def sanitize_try_def Let_def await_def
          split: fetch_result.splits option.splits sum.splits)
qed

text \<open>
  C9, as the code has it. A request whose body yields its fields (any JSON value but
  \<open>null\<close>) and whose \<open>message\<close> is missing or empty (or falsy in any other way) is
  answered with status 400 and the validation error, and the state is what it was: no
  credential fetch, no classifier call and no backend call has been made. A body that
  is not JSON, or is \<open>null\<close>, is not validated: the read or the destructuring throws and
  the handler's catch-all answers with status 500, before any network call as well.
\<close>

theorem rejects_empty_message:
  "(\<not> js_truthy (message b) \<longrightarrow>
      POST w s (Body b) = (message_required, s) \<and> code message_required = 400 \<and>
      js_prop (payload message_required) ''error'' = Some (JStr ''Message is required''))
   \<and> snd (POST w s (NotJson e)) = s
   \<and> snd (POST w s NullBody) = s
   \<and> POST w s (NotJson e) = (internal_error, s)
   \<and> POST w s NullBody = (internal_error, s)
   \<and> code internal_error = 500
   \<and> js_prop (payload internal_error) ''error'' = Some (JStr ''Internal server error'')"
  by (auto simp: POST_def chat_try_def message_required_def internal_error_def
        split: option.splits)

theorem rejects_empty_message_witness:
  "\<not> js_truthy (message \<lparr>message = Some (JStr []), safetyProfile = None, sessionId = None,
                          userId = None\<rparr>)
   \<and> POST backend_down cold (Body \<lparr>message = Some (JStr []), safetyProfile = None,
        sessionId = None, userId = None\<rparr>) = (message_required, cold)
   \<and> POST backend_down cold no_message = (message_required, cold)
   \<and> trace cold = []"
  using rejects_empty_message [of "\<lparr>message = Some (JStr []), safetyProfile = None,
        sessionId = None, userId = None\<rparr>" backend_down cold]
    rejects_empty_message [of "\<lparr>message = None, safetyProfile = None,
        sessionId = Some (JStr ''s-1''), userId = Some (JStr ''u-1'')\<rparr>" backend_down cold]
  by (simp add: no_message_def cold_def)

text \<open>
  The claim as it was stated fails: a request whose body is the JSON value \<open>null\<close> has no
  \<open>message\<close>, and it is answered with status 500 and the generic error, not with the
  validation error.
\<close>

theorem null_body_is_internal_error:
  "POST backend_down cold NullBody = (internal_error, cold)
   \<and> code (fst (POST backend_down cold NullBody)) = 500
   \<and> code (fst (POST backend_down cold NullBody)) \<noteq> 400
   \<and> fst (POST backend_down cold NullBody) \<noteq> message_required"
  by (simp add: POST_def chat_try_def internal_error_def message_required_def)

text \<open>
  C1. With the classifier enabled, when the classification of the prompt returns a
  verdict with \<open>matchState = 2\<close>, the endpoint answers with the fixed safety-block
  message, \<open>blocked = true\<close> and the details of the verdict, and the state it leaves is
  the one the classification left: backend generation has not been invoked.
\<close>

theorem blocked_prompt_stops:
  assumes "isModelArmorEnabled w"
    and "message b = Some msg" and "js_truthy (Some msg)"
    and "templates_prompt (getTemplates (profile_of b)) = Inr t"
    and "matchState (fst (sanitizePrompt w s msg t)) = Some (JNum 2)"
  shows "POST w s (Body b) =
           (unsafe_prompt (fst (sanitizePrompt w s msg t)), snd (sanitizePrompt w s msg t))
         \<and> js_prop (payload (fst (POST w s (Body b)))) ''response'' = Some (JStr
             ''I cannot process that request due to safety concerns. Please rephrase your question.'')
         \<and> js_prop (payload (fst (POST w s (Body b)))) ''blocked'' = Some (JBool True)
         \<and> js_prop (payload (fst (POST w s (Body b)))) ''safetyDetails'' = Some (JObj
             [(''prompt'', details_json (details (fst (sanitizePrompt w s msg t)))),
              (''response'', JNull)])
         \<and> filter is_backend_event (trace (snd (POST w s (Body b)))) =
             filter is_backend_event (trace s)"
proof -
  obtain v s1 where sp: "sanitizePrompt w s msg t = (v, s1)"
    by (cases "sanitizePrompt w s msg t")
  have "verdict_invariant (fst (sanitizePrompt w s msg t))"
    by (simp add: sanitizePrompt_def sanitize_invariant)
  with assms(5) have blk: "blocked v"
    by (simp add: verdict_invariant_def sp)
  have post: "POST w s (Body b) = (unsafe_prompt v, s1)"
    using assms(1-4) blk
    by (simp add: POST_def chat_try_def chat_step1_def sp)
  have "filter is_backend_event (trace s1) = filter is_backend_event (trace s)"
    using sanitize_backend [of UserPrompt w s msg "prompt_template w t"] sp
    by (simp add: sanitizePrompt_def)
  then show ?thesis
    unfolding post sp by (simp add: unsafe_prompt_def)
qed

lemma to_lower_TRUE:
  "to_lower (CHR ''T'') = CHR ''t''" "to_lower (CHR ''R'') = CHR ''r''"
  "to_lower (CHR ''U'') = CHR ''u''" "to_lower (CHR ''E'') = CHR ''e''"
  by code_simp+

lemma enabled_offline: "isModelArmorEnabled offline"
  by (simp add: isModelArmorEnabled_def offline_def to_lower_TRUE)

lemma enabled_answering: "isModelArmorEnabled (answering j)"
  using enabled_offline by (simp add: isModelArmorEnabled_def answering_def)

lemma enabled_backend_down: "isModelArmorEnabled backend_down"
  using enabled_answering [of cleared] by (simp add: isModelArmorEnabled_def backend_down_def)

lemma balanced_prompt:
  "templates_prompt (getTemplates (profile_of \<lparr>message = m, safetyProfile = None,
      sessionId = sid, userId = uid\<rparr>)) = Inr (Some (JStr ''ma-all-med''))"
  by (simp add: profile_of_def getTemplates_def SAFETY_TEMPLATES_def)

lemma sanitizePrompt_blocking:
  "sanitizePrompt (answering blocking_body) cold inp (Some (JStr ''ma-all-med'')) =
     (\<lparr>isSafe = False, blocked = True, matchState = Some (JNum 2), sanitizedText = Some inp,
       details = \<lparr>sensitiveData = Some ''blocked'', promptInjection = None,
         maliciousUrls = None,
         responsibleAI = Some \<lparr>overall = ''blocked'', sexuallyExplicit = ''not_assessed'',
           hateSpeech = ''not_assessed'', harassment = ''not_assessed'',
           dangerous = ''blocked''\<rparr>\<rparr>,
       rawResponse = blocking_body\<rparr>,
      \<lparr>cachedAuth = Some \<lparr>accessToken = ''ya29.token'', expiresAt = 3601120\<rparr>,
       clock = 1240,
       trace = [TokenExchange,
                ClassifierCall UserPrompt (JStr ''ma-all-med'') inp ''ya29.token'']\<rparr>)"
  by (simp add: sanitizePrompt_def sanitize_def sanitize_try_def prompt_template_def
        template_of_def js_or_def getAccessToken_def fetchToken_def cold_def offline_def
        answering_def await_def json_response_def ok_def parse_blocking_body)

theorem blocked_prompt_stops_witness:
  "isModelArmorEnabled (answering blocking_body)
   \<and> matchState (fst (sanitizePrompt (answering blocking_body) cold
        (JStr ''How to make explosives?'') (Some (JStr ''ma-all-med'')))) = Some (JNum 2)
   \<and> code (fst (POST (answering blocking_body) cold (asking ''How to make explosives?''))) = 200
   \<and> js_prop (payload (fst (POST (answering blocking_body) cold
        (asking ''How to make explosives?'')))) ''blocked'' = Some (JBool True)
   \<and> trace (snd (POST (answering blocking_body) cold (asking ''How to make explosives?''))) =
        [TokenExchange,
         ClassifierCall UserPrompt (JStr ''ma-all-med'') (JStr ''How to make explosives?'')
           ''ya29.token'']"
  using blocked_prompt_stops [of "answering blocking_body"
      "\<lparr>message = Some (JStr ''How to make explosives?''), safetyProfile = None,
        sessionId = Some (JStr ''s-1''), userId = Some (JStr ''u-1'')\<rparr>"
      "JStr ''How to make explosives?''" "Some (JStr ''ma-all-med'')" cold]
  by (simp add: enabled_answering balanced_prompt sanitizePrompt_blocking asking_def
        unsafe_prompt_def)

lemma chat_step2_throws:
  "fst (generateAIResponse w s x (sessionId b) (userId b)) = Inl e \<Longrightarrow>
   fst (chat_step2 w s b ps x) = Inr (generation_error e)"
  by (cases "generateAIResponse w s x (sessionId b) (userId b)") (simp add: chat_step2_def)

lemma POST_reply: "fst (chat_try w s req) = Inr r \<Longrightarrow> fst (POST w s req) = r"
  by (cases "chat_try w s req") (simp add: POST_def)

text \<open>
  C10. When backend generation throws, the endpoint answers with status 500 and a body
  whose \<open>blocked\<close> is true and whose \<open>reason\<close> is \<open>generation_error\<close>, although nothing
  was blocked: the classifier is disabled, or it is enabled and the verdict on the prompt
  is not blocked.
\<close>

theorem generation_error_is_blocked:
  "(\<not> isModelArmorEnabled w \<and> message b = Some msg \<and> js_truthy (Some msg) \<and>
    fst (generateAIResponse w s msg (sessionId b) (userId b)) = Inl e \<longrightarrow>
      fst (POST w s (Body b)) = generation_error e)
   \<and> (isModelArmorEnabled w \<and> message b = Some msg \<and> js_truthy (Some msg) \<and>
       templates_prompt (getTemplates (profile_of b)) = Inr t \<and>
       sanitizePrompt w s msg t = (v, s1) \<and> \<not> blocked v \<and>
       js_or (sanitizedText v) (Some msg) = Some x \<and>
       fst (generateAIResponse w s1 x (sessionId b) (userId b)) = Inl e \<longrightarrow>
         fst (POST w s (Body b)) = generation_error e)
   \<and> code (generation_error e) = 500
   \<and> js_prop (payload (generation_error e)) ''blocked'' = Some (JBool True)
   \<and> js_prop (payload (generation_error e)) ''reason'' = Some (JStr ''generation_error'')"
proof (intro conjI impI)
  assume h: "\<not> isModelArmorEnabled w \<and> message b = Some msg \<and> js_truthy (Some msg) \<and>
    fst (generateAIResponse w s msg (sessionId b) (userId b)) = Inl e"
  then have "fst (chat_try w s (Body b)) = Inr (generation_error e)"
    by (simp add: chat_try_def chat_step1_def chat_step2_throws)
  then show "fst (POST w s (Body b)) = generation_error e" by (rule POST_reply)
next
  assume h: "isModelArmorEnabled w \<and> message b = Some msg \<and> js_truthy (Some msg) \<and>
       templates_prompt (getTemplates (profile_of b)) = Inr t \<and>
       sanitizePrompt w s msg t = (v, s1) \<and> \<not> blocked v \<and>
       js_or (sanitizedText v) (Some msg) = Some x \<and>
       fst (generateAIResponse w s1 x (sessionId b) (userId b)) = Inl e"
  then have "fst (chat_try w s (Body b)) = Inr (generation_error e)"
    by (simp add: chat_try_def chat_step1_def chat_step2_throws)
  then show "fst (POST w s (Body b)) = generation_error e" by (rule POST_reply)
qed (simp_all add: generation_error_def)

lemma sanitizePrompt_cleared:
  "sanitizePrompt backend_down cold inp (Some (JStr ''ma-all-med'')) =
     (\<lparr>isSafe = True, blocked = False, matchState = Some (JNum 1), sanitizedText = Some inp,
       details = no_details, rawResponse = cleared\<rparr>,
      \<lparr>cachedAuth = Some \<lparr>accessToken = ''ya29.token'', expiresAt = 3601120\<rparr>,
       clock = 1240,
       trace = [TokenExchange,
                ClassifierCall UserPrompt (JStr ''ma-all-med'') inp ''ya29.token'']\<rparr>)"
  by (simp add: sanitizePrompt_def sanitize_def sanitize_try_def prompt_template_def
        template_of_def js_or_def getAccessToken_def fetchToken_def cold_def offline_def
        backend_down_def answering_def await_def json_response_def ok_def parseResponse_def
        cleared_def filterResults_of_def deidentified_def parseDetails_def sdp_block_def
        pi_block_def uri_block_def rai_block_def)

lemma backend_down_throws:
  "fst (generateAIResponse backend_down s x sid uid) =
     Inl (Error ''Local backend API failed: 503 Service Unavailable - connect ECONNREFUSED 10.0.0.5:8000'')"
  by (simp add: generateAIResponse_def callLocalBackend_def backend_down_def answering_def
        offline_def Let_def ok_def backend_failed_def show_nat.simps digit_def)

theorem generation_error_is_blocked_witness:
  "isModelArmorEnabled backend_down
   \<and> \<not> blocked (fst (sanitizePrompt backend_down cold (JStr ''hi'') (Some (JStr ''ma-all-med''))))
   \<and> code (fst (POST backend_down cold (asking ''hi''))) = 500
   \<and> js_prop (payload (fst (POST backend_down cold (asking ''hi'')))) ''blocked''
       = Some (JBool True)
   \<and> js_prop (payload (fst (POST backend_down cold (asking ''hi'')))) ''reason''
       = Some (JStr ''generation_error'')"
  using generation_error_is_blocked [of backend_down
      "\<lparr>message = Some (JStr ''hi''), safetyProfile = None,
        sessionId = Some (JStr ''s-1''), userId = Some (JStr ''u-1'')\<rparr>"
      "JStr ''hi''" cold
      "Error ''Local backend API failed: 503 Service Unavailable - connect ECONNREFUSED 10.0.0.5:8000''"
      "Some (JStr ''ma-all-med'')"
      "fst (sanitizePrompt backend_down cold (JStr ''hi'') (Some (JStr ''ma-all-med'')))"
      "snd (sanitizePrompt backend_down cold (JStr ''hi'') (Some (JStr ''ma-all-med'')))"
      "JStr ''hi''"]
  by (simp add: enabled_backend_down balanced_prompt sanitizePrompt_cleared
        backend_down_throws asking_def js_or_def)

text \<open>
  C7. The reply to a failed generation has status 500 and a generic apology, but it also
  carries the raw error message, in production as anywhere else: the \<open>error\<close> entry is
  not gated by \<open>NODE_ENV\<close>. Here a production deployment whose local backend answers 503
  hands the backend's status line and body to the caller.
\<close>

theorem production_reply_carries_error_detail:
  "env backend_down ''NODE_ENV'' = Some ''production''
   \<and> code (fst (POST backend_down cold (asking ''hi''))) = 500
   \<and> js_prop (payload (fst (POST backend_down cold (asking ''hi'')))) ''response''
       = Some (JStr ''I'm experiencing technical difficulties. Please try again later.'')
   \<and> js_prop (payload (fst (POST backend_down cold (asking ''hi'')))) ''error''
       = Some (JStr
          ''Local backend API failed: 503 Service Unavailable - connect ECONNREFUSED 10.0.0.5:8000'')"
proof -
  have "fst (chat_try backend_down cold (asking ''hi'')) =
          Inr (generation_error (Error
            ''Local backend API failed: 503 Service Unavailable - connect ECONNREFUSED 10.0.0.5:8000''))"
    by (simp add: chat_try_def chat_step1_def asking_def enabled_backend_down balanced_prompt
          sanitizePrompt_cleared js_or_def chat_step2_throws backend_down_throws)
  then have "fst (POST backend_down cold (asking ''hi'')) =
          generation_error (Error
            ''Local backend API failed: 503 Service Unavailable - connect ECONNREFUSED 10.0.0.5:8000'')"
    by (rule POST_reply)
  then show ?thesis
    by (simp add: generation_error_def backend_down_def answering_def offline_def)
qed

lemma generation_error_detail:
  "js_prop (payload (generation_error e)) ''error'' = Some (JStr (message_of e))"
  by (simp add: generation_error_def)

text \<open>
  The sibling endpoint shows the gate the chat endpoint lacks: its reply carries the raw
  classifier response under \<open>debug\<close> in development mode only, and its own error reply
  carries no detail.
\<close>

lemma sanitize_debug_gated:
  "js_prop (payload (sanitize_reply w result)) ''debug'' =
     (if env w ''NODE_ENV'' = Some ''development'' then Some (rawResponse result) else None)"
  by (simp add: sanitize_reply_def opt_entry_def details_json_def
        split: option.splits)

lemma sanitize_error_reply_generic:
  "fst (sanitize_try_route w s req) = Inl e \<Longrightarrow>
   payload (fst (sanitize_POST w s req)) =
     JObj [(''error'', JStr ''Model Armor service unavailable''), (''isSafe'', JBool True),
           (''blocked'', JBool False), (''text'', JStr [])]"
  by (cases "sanitize_try_route w s req") (simp add: sanitize_POST_def)

section \<open>Aggregation of a streamed answer\<close>

lemma foldl_chunks: "foldl (\<lambda>c chunk. foldl f c chunk) c cs = foldl f c (concat cs)"
  by (induction cs arbitrary: c) simp_all

text \<open>
  The loop keeps its invariant, so the middle operand of the final \<open>||\<close> chain never
  decides the result.
\<close>

lemma sse_step_kept: "last_text_kept c \<Longrightarrow> last_text_kept (sse_step c l)"
  by (cases l; cases "fullText c")
     (auto simp: last_text_kept_def split: option.splits js_text.splits)

lemma foldl_sse_step_kept: "last_text_kept c \<Longrightarrow> last_text_kept (foldl sse_step c ls)"
  by (induction ls arbitrary: c) (simp_all add: sse_step_kept)

lemma collected_kept: "last_text_kept (collected cs)"
  unfolding collected_def foldl_chunks
  by (rule foldl_sse_step_kept) (simp add: last_text_kept_def)

lemma final_text_collected:
  "final_text (collected cs) =
     (case fullText (collected cs) of
        Str t \<Rightarrow> if t \<noteq> [] then t else ''No response generated''
      | Undef \<Rightarrow> ''No response generated''
      | NaN \<Rightarrow> ''No response generated'')"
  using collected_kept [of cs]
  by (auto simp: final_text_def last_text_kept_def Let_def split: option.splits js_text.splits)

lemma foldl_sse_step_text:
  "list_all has_text ls \<Longrightarrow>
   fullText (foldl sse_step \<lparr>fullText = Str a, lastValidText = x\<rparr> ls) =
     Str (foldl (\<lambda>acc (incremental, t). if incremental then acc @ t else t) a
            (concat (map fragment_of ls)))"
proof (induction ls arbitrary: a x)
  case Nil
  then show ?case by simp
next
  case (Cons l ls)
  then have rest: "list_all has_text ls" and l: "has_text l" by simp_all
  show ?case
  proof (cases l)
    case (Part incremental newText)
    with l obtain t where "newText = Some t" by (cases newText) auto
    with Part Cons.IH [OF rest] show ?thesis by simp
  qed (use Cons.IH [OF rest] in simp_all)
qed

lemma collected_text:
  "list_all has_text (concat cs) \<Longrightarrow> fullText (collected cs) = Str (aggregate (fragments_of cs))"
  unfolding collected_def foldl_chunks aggregate_def fragments_of_def
  by (rule foldl_sse_step_text)

text \<open>
  C6, as the code has it. Over a stream whose parts carry a text, the aggregator appends
  the text of each incremental fragment to the accumulator and replaces the accumulator
  with the text of each final fragment; lines that are not data, do not parse or have no
  part change nothing. At stream close it returns the accumulated value when that is not
  empty, and the guard string \<open>No response generated\<close> when it is empty, as it is when
  no fragment arrived. The three fragments "Hel", "lo" (incremental) and "Hello world"
  (final) aggregate to "Hello world".
\<close>

theorem aggregates_fragments:
  "(list_all has_text (concat cs) \<and> bodyStream r = Some \<lparr>chunks = cs, failure = None\<rparr> \<longrightarrow>
      collectStreamingResponse r =
        Inr (if aggregate (fragments_of cs) = [] then ''No response generated''
             else aggregate (fragments_of cs)))
   \<and> aggregate [] = []
   \<and> aggregate (fs @ [(True, t)]) = aggregate fs @ t
   \<and> aggregate (fs @ [(False, t)]) = t
   \<and> collectStreamingResponse (streamed
        [[Part True (Some ''Hel''), Part True (Some ''lo''), Part False (Some ''Hello world'')]])
       = Inr ''Hello world''"
proof (intro conjI impI)
  assume h: "list_all has_text (concat cs) \<and> bodyStream r = Some \<lparr>chunks = cs, failure = None\<rparr>"
  then have "collectStreamingResponse r = Inr (final_text (collected cs))"
    by (simp add: collectStreamingResponse_def)
  also have "final_text (collected cs) =
      (if aggregate (fragments_of cs) = [] then ''No response generated''
       else aggregate (fragments_of cs))"
    using h by (simp add: final_text_collected collected_text)
  finally show "collectStreamingResponse r =
        Inr (if aggregate (fragments_of cs) = [] then ''No response generated''
             else aggregate (fragments_of cs))" .
next
  show "collectStreamingResponse (streamed
        [[Part True (Some ''Hel''), Part True (Some ''lo''), Part False (Some ''Hello world'')]])
       = Inr ''Hello world''"
    by (simp add: collectStreamingResponse_def streamed_def collected_def final_text_def)
qed (simp_all add: aggregate_def)

theorem aggregates_fragments_witness:
  "list_all has_text (concat [[Part True (Some ''Hel''), NotData], [BadJson, Part True (Some ''lo'')],
      [NoPart, Part False (Some ''Hello world''), Part True (Some ''!'')]])
   \<and> fragments_of [[Part True (Some ''Hel''), NotData], [BadJson, Part True (Some ''lo'')],
        [NoPart, Part False (Some ''Hello world''), Part True (Some ''!'')]]
       = [(True, ''Hel''), (True, ''lo''), (False, ''Hello world''), (True, ''!'')]
   \<and> collectStreamingResponse (streamed [[Part True (Some ''Hel''), NotData],
        [BadJson, Part True (Some ''lo'')],
        [NoPart, Part False (Some ''Hello world''), Part True (Some ''!'')]])
       = Inr ''Hello world!''
   \<and> collectStreamingResponse (streamed []) = Inr ''No response generated''"
  using aggregates_fragments [of "[[Part True (Some ''Hel''), NotData],
        [BadJson, Part True (Some ''lo'')],
        [NoPart, Part False (Some ''Hello world''), Part True (Some ''!'')]]"
      "streamed [[Part True (Some ''Hel''), NotData], [BadJson, Part True (Some ''lo'')],
        [NoPart, Part False (Some ''Hello world''), Part True (Some ''!'')]]"]
    aggregates_fragments [of "[]" "streamed []"]
  by (simp add: streamed_def fragments_of_def aggregate_def)

text \<open>
  The claim as it was stated fails: here two fragments arrive, the last accumulated
  value is the empty string, and the aggregator returns the guard string, not that value.
\<close>

theorem empty_accumulator_returns_guard:
  "fragments_of [[Part True (Some ''Hel''), Part False (Some [])]] = [(True, ''Hel''), (False, [])]
   \<and> aggregate [(True, ''Hel''), (False, [])] = []
   \<and> collectStreamingResponse (streamed [[Part True (Some ''Hel''), Part False (Some [])]])
       = Inr ''No response generated''
   \<and> collectStreamingResponse (streamed [[Part True (Some ''Hel''), Part False (Some [])]])
       \<noteq> Inr (aggregate (fragments_of [[Part True (Some ''Hel''), Part False (Some [])]]))"
  by (simp add: fragments_of_def aggregate_def collectStreamingResponse_def streamed_def
        collected_def final_text_def)

text \<open>A part without a text is not skipped: its absent text is concatenated as a word.\<close>

lemma textless_part_is_spelled_out:
  "collectStreamingResponse (streamed [[Part False None, Part True (Some ''Hi'')]])
     = Inr ''undefinedHi''"
  by (simp add: collectStreamingResponse_def streamed_def collected_def final_text_def)

end
